theory Spec2Isabelle
  imports Main "HOL-Library.Word"
begin

section \<open>The lane constructor (blockbuster/lanes/constructor/lane.go)\<close>

text \<open>
  A lane is the Go struct \<^verbatim>\<open>LaneConstructor\<close>. Its configuration is a
  \<^verbatim>\<open>blockbuster.BaseLaneConfig\<close>, of which lane.go reads the logger, the two codecs,
  the ante handler, the block-space quota and the ignore list. The ignore list holds
  lanes, so the two types are one nested datatype: a lane carries the lanes it ignores by
  value, as a finite tree. Go holds them by reference; an ignore list that led back to
  the lane itself, on which the recursion of \<^verbatim>\<open>Match\<close> would not end, has no
  counterpart here.

  The type parameters: \<open>'ctx\<close> is \<^verbatim>\<open>sdk.Context\<close>, \<open>'tx\<close> is \<^verbatim>\<open>sdk.Tx\<close>,
  \<open>'h\<close> stands for the handles to external collaborators (logger, codecs, ante handler,
  mempool) and \<open>'f\<close> for the prepare, process and check-order handler functions.
  Everything Go can leave \<^verbatim>\<open>nil\<close> and lane.go tests against \<^verbatim>\<open>nil\<close> is an
  \<open>option\<close>.
\<close>

text \<open>
  \<^verbatim>\<open>math.LegacyDec\<close> (the SDK's \<^verbatim>\<open>Dec\<close>) is a decimal number with 18
  fractional digits: the model keeps the integer number of its \<open>10\<^sup>-\<^sup>1\<^sup>8\<close> units.
\<close>

datatype Dec = Dec (units: int)

datatype ('l, 'h) BaseLaneConfig =
  BaseLaneConfig
    (Logger: 'h)
    (TxEncoder: 'h)
    (TxDecoder: 'h)
    (AnteHandler: 'h)
    (MaxBlockSpace: Dec)
    (IgnoreList: "'l list")

datatype ('ctx, 'tx, 'h, 'f) LaneConstructor =
  LaneConstructor
    (cfg: "(('ctx, 'tx, 'h, 'f) LaneConstructor, 'h) BaseLaneConfig")
    (laneName: string)
    (LaneMempool: "'h option")
    (matchHandler: "('ctx \<Rightarrow> 'tx \<Rightarrow> bool) option")
    (prepareLaneHandler: "'f option")
    (checkOrderHandler: "'f option")
    (processLaneHandler: "'f option")

text \<open>A Go panic, with its message.\<close>

datatype panic = Panic string

text \<open>
  Four methods that lane.go calls live in files of the repository that are not part of
  the sources at hand: \<^verbatim>\<open>BaseLaneConfig.ValidateBasic\<close> and the three factories of
  the default handlers. They are parameters of the model. An error is its message;
  \<open>None\<close> is Go's \<^verbatim>\<open>nil\<close>.
\<close>

record ('ctx, 'tx, 'h, 'f) lane_methods =
  cfg_ValidateBasic ::
    "(('ctx, 'tx, 'h, 'f) LaneConstructor, 'h) BaseLaneConfig \<Rightarrow> string option"
  DefaultPrepareLaneHandler :: "('ctx, 'tx, 'h, 'f) LaneConstructor \<Rightarrow> 'f option"
  DefaultProcessLaneHandler :: "('ctx, 'tx, 'h, 'f) LaneConstructor \<Rightarrow> 'f option"
  DefaultCheckOrderHandler :: "('ctx, 'tx, 'h, 'f) LaneConstructor \<Rightarrow> 'f option"

subsection \<open>Setters\<close>

text \<open>
  The setters assign one field of the receiver; the model returns the updated lane.
\<close>

fun SetPrepareLaneHandler ::
  "'f option \<Rightarrow> ('ctx, 'tx, 'h, 'f) LaneConstructor \<Rightarrow> ('ctx, 'tx, 'h, 'f) LaneConstructor"
where
  "SetPrepareLaneHandler prepareLaneHandler' (LaneConstructor c n m mh p co pr) =
     LaneConstructor c n m mh prepareLaneHandler' co pr"

fun SetProcessLaneHandler ::
  "'f option \<Rightarrow> ('ctx, 'tx, 'h, 'f) LaneConstructor \<Rightarrow> ('ctx, 'tx, 'h, 'f) LaneConstructor"
where
  "SetProcessLaneHandler processLaneHandler' (LaneConstructor c n m mh p co pr) =
     LaneConstructor c n m mh p co processLaneHandler'"

fun SetCheckOrderHandler ::
  "'f option \<Rightarrow> ('ctx, 'tx, 'h, 'f) LaneConstructor \<Rightarrow> ('ctx, 'tx, 'h, 'f) LaneConstructor"
where
  "SetCheckOrderHandler checkOrderHandler' (LaneConstructor c n m mh p co pr) =
     LaneConstructor c n m mh p checkOrderHandler' pr"

fun SetIgnoreList ::
  "('ctx, 'tx, 'h, 'f) LaneConstructor list \<Rightarrow> ('ctx, 'tx, 'h, 'f) LaneConstructor
     \<Rightarrow> ('ctx, 'tx, 'h, 'f) LaneConstructor"
where
  "SetIgnoreList lanes (LaneConstructor (BaseLaneConfig lg te td ah mbs il) n m mh p co pr) =
     LaneConstructor (BaseLaneConfig lg te td ah mbs lanes) n m mh p co pr"

definition Name :: "('ctx, 'tx, 'h, 'f) LaneConstructor \<Rightarrow> string" where
  "Name l = laneName l"

subsection \<open>ValidateBasic and NewLaneConstructor\<close>

text \<open>
  \<^verbatim>\<open>ValidateBasic\<close> returns an error or \<^verbatim>\<open>nil\<close> and, on the way to
  \<^verbatim>\<open>nil\<close>, fills the handlers that are \<^verbatim>\<open>nil\<close>: the result is the lane after
  the call together with the error. The checks and the assignments are in the order of the
  source.
\<close>

definition ValidateBasic ::
  "('ctx, 'tx, 'h, 'f) lane_methods \<Rightarrow> ('ctx, 'tx, 'h, 'f) LaneConstructor
     \<Rightarrow> ('ctx, 'tx, 'h, 'f) LaneConstructor \<times> string option"
where
  "ValidateBasic X l =
     (case cfg_ValidateBasic X (cfg l) of
        Some err \<Rightarrow> (l, Some err)
      | None \<Rightarrow>
          if laneName l = [] then (l, Some ''lane name cannot be empty'')
          else if LaneMempool l = None then (l, Some ''lane mempool cannot be nil'')
          else if matchHandler l = None then (l, Some ''match handler cannot be nil'')
          else
            let l1 = (if prepareLaneHandler l = None
                      then SetPrepareLaneHandler (DefaultPrepareLaneHandler X l) l else l);
                l2 = (if processLaneHandler l1 = None
                      then SetProcessLaneHandler (DefaultProcessLaneHandler X l1) l1 else l1);
                l3 = (if checkOrderHandler l2 = None
                      then SetCheckOrderHandler (DefaultCheckOrderHandler X l2) l2 else l2)
            in (l3, None))"

text \<open>
  \<^verbatim>\<open>NewLaneConstructor\<close> builds the struct from its four arguments, the three
  other handlers \<^verbatim>\<open>nil\<close>, and panics with the error of \<^verbatim>\<open>ValidateBasic\<close>.
\<close>

definition NewLaneConstructor ::
  "('ctx, 'tx, 'h, 'f) lane_methods
     \<Rightarrow> (('ctx, 'tx, 'h, 'f) LaneConstructor, 'h) BaseLaneConfig \<Rightarrow> string \<Rightarrow> 'h option
     \<Rightarrow> ('ctx \<Rightarrow> 'tx \<Rightarrow> bool) option \<Rightarrow> panic + ('ctx, 'tx, 'h, 'f) LaneConstructor"
where
  "NewLaneConstructor X cfg' laneName' laneMempool matchHandlerFn =
     (let lane = LaneConstructor cfg' laneName' laneMempool matchHandlerFn None None None
      in case ValidateBasic X lane of
           (lane', Some err) \<Rightarrow> Inl (Panic err)
         | (lane', None) \<Rightarrow> Inr lane')"

subsection \<open>Match and CheckIgnoreList\<close>

text \<open>
  The loop of \<^verbatim>\<open>CheckIgnoreList\<close>: it asks each lane of the list in turn and returns
  \<^verbatim>\<open>true\<close> at the first that matches; a panic of a lane ends it.
\<close>

fun range_IgnoreList :: "('l \<Rightarrow> panic + bool) \<Rightarrow> 'l list \<Rightarrow> panic + bool" where
  "range_IgnoreList m [] = Inr False"
| "range_IgnoreList m (lane # lanes) =
     (case m lane of
        Inl p \<Rightarrow> Inl p
      | Inr True \<Rightarrow> Inr True
      | Inr False \<Rightarrow> range_IgnoreList m lanes)"

lemma range_IgnoreList_cong [fundef_cong]:
  "lanes = lanes' \<Longrightarrow> (\<And>lane. lane \<in> set lanes' \<Longrightarrow> m lane = m' lane)
     \<Longrightarrow> range_IgnoreList m lanes = range_IgnoreList m' lanes'"
  by (induction lanes arbitrary: lanes') (auto split: sum.splits bool.splits)

lemma size_IgnoreList [termination_simp]:
  "lane \<in> set (IgnoreList (cfg l)) \<Longrightarrow> size lane < size l"
proof (cases l)
  case (LaneConstructor c n m mh p co pr)
  assume mem: "lane \<in> set (IgnoreList (cfg l))"
  show ?thesis
  proof (cases c)
    case (BaseLaneConfig lg te td ah mbs il)
    from mem LaneConstructor BaseLaneConfig have "lane \<in> set il" by simp
    then have "size lane \<le> size_list size il" by (rule size_list_estimation') simp
    with LaneConstructor BaseLaneConfig show ?thesis by simp
  qed
qed

text \<open>
  \<^verbatim>\<open>Match\<close> calls the match handler and, only when it returned \<^verbatim>\<open>true\<close>
  (Go's \<^verbatim>\<open>&&\<close>), \<^verbatim>\<open>CheckIgnoreList\<close>. Calling a \<^verbatim>\<open>nil\<close> function is a
  run-time panic.
\<close>

fun Match :: "('ctx, 'tx, 'h, 'f) LaneConstructor \<Rightarrow> 'ctx \<Rightarrow> 'tx \<Rightarrow> panic + bool"
and CheckIgnoreList :: "('ctx, 'tx, 'h, 'f) LaneConstructor \<Rightarrow> 'ctx \<Rightarrow> 'tx \<Rightarrow> panic + bool"
where
  "Match l ctx tx =
     (case matchHandler l of
        None \<Rightarrow> Inl (Panic ''invalid memory address or nil pointer dereference'')
      | Some h \<Rightarrow>
          if h ctx tx
          then (case CheckIgnoreList l ctx tx of Inl p \<Rightarrow> Inl p | Inr b \<Rightarrow> Inr (\<not> b))
          else Inr False)"
| "CheckIgnoreList l ctx tx =
     range_IgnoreList (\<lambda>lane. Match lane ctx tx) (IgnoreList (cfg l))"

declare Match.simps [simp del] CheckIgnoreList.simps [simp del]

text \<open>
  The lanes in which no match handler is \<^verbatim>\<open>nil\<close>, down the ignore lists: what
  \<^verbatim>\<open>ValidateBasic\<close> guarantees of every lane that \<^verbatim>\<open>NewLaneConstructor\<close>
  returned.
\<close>

fun matchHandlers_set :: "('ctx, 'tx, 'h, 'f) LaneConstructor \<Rightarrow> bool" where
  "matchHandlers_set l =
     ((\<exists>h. matchHandler l = Some h) \<and>
      list_all matchHandlers_set (IgnoreList (cfg l)))"

declare matchHandlers_set.simps [simp del]

section \<open>The auction-bid command (x/builder/client/cli/tx.go)\<close>

subsection \<open>Go's standard library: strings.Split and base64.StdEncoding\<close>

text \<open>
  A Go string is a sequence of bytes, here a \<open>string\<close>; a \<^verbatim>\<open>[]byte\<close> is a list of
  8-bit words.
\<close>

type_synonym byte = "8 word"

text \<open>
  \<^verbatim>\<open>strings.Split(s, sep)\<close> for a separator of one byte: the pieces of \<open>s\<close> between
  the separators, in order; a string without separator, the empty string too, is one piece.
  \<open>genSplit a s sep\<close> goes through \<open>s\<close> with the piece \<open>a\<close> read so far.
  \<^verbatim>\<open>strings.Join\<close> puts the separator back between the pieces.
\<close>

fun genSplit :: "string \<Rightarrow> string \<Rightarrow> char \<Rightarrow> string list" where
  "genSplit a [] sep = [a]"
| "genSplit a (c # s) sep =
     (if c = sep then a # genSplit [] s sep else genSplit (a @ [c]) s sep)"

definition strings_Split :: "string \<Rightarrow> char \<Rightarrow> string list" where
  "strings_Split s sep = genSplit [] s sep"

fun strings_Join :: "string list \<Rightarrow> char \<Rightarrow> string" where
  "strings_Join [] sep = []"
| "strings_Join [a] sep = a"
| "strings_Join (a # b # elems) sep = a @ sep # strings_Join (b # elems) sep"

text \<open>
  \<^verbatim>\<open>base64.StdEncoding.DecodeString\<close>: the standard alphabet, padded with \<open>=\<close>, not
  strict about the unused bits of the last group; line feeds and carriage returns are
  skipped. \<open>decode dbuf s si\<close> reads the input from offset \<open>si\<close> on, \<open>dbuf\<close> being
  the 6-bit values of the group read so far. The error carries the offset of the
  offending byte, as Go's \<^verbatim>\<open>CorruptInputError\<close> does.
\<close>

definition encodeStd :: string where
  "encodeStd = ''ABCDEFGHIJKLMNOPQRSTUVWXYZabcdefghijklmnopqrstuvwxyz0123456789+/''"

fun index_of :: "'a \<Rightarrow> 'a list \<Rightarrow> nat option" where
  "index_of x [] = None"
| "index_of x (y # ys) = (if x = y then Some 0 else map_option Suc (index_of x ys))"

definition decodeMap :: "char \<Rightarrow> nat option" where
  "decodeMap c = index_of c encodeStd"

datatype CorruptInputError = CorruptInputError nat

definition is_newline :: "char \<Rightarrow> bool" where
  "is_newline c = (c = CHR 0x0A \<or> c = CHR 0x0D)"

fun skip_newlines :: "string \<Rightarrow> nat \<Rightarrow> string \<times> nat" where
  "skip_newlines [] si = ([], si)"
| "skip_newlines (c # s) si = (if is_newline c then skip_newlines s (Suc si) else (c # s, si))"

text \<open>The bytes of a group of two, three or four 6-bit values.\<close>

definition quantum_bytes :: "nat list \<Rightarrow> byte list" where
  "quantum_bytes dbuf =
     (let d = dbuf @ replicate (4 - length dbuf) 0;
          val = d ! 0 * 2 ^ 18 + d ! 1 * 2 ^ 12 + d ! 2 * 2 ^ 6 + d ! 3
      in take (length dbuf - 1) [of_nat (val div 2 ^ 16), of_nat (val div 2 ^ 8), of_nat val])"

text \<open>After the padding nothing may follow but line breaks.\<close>

definition trailing :: "nat list \<Rightarrow> string \<Rightarrow> nat \<Rightarrow> CorruptInputError + byte list" where
  "trailing dbuf s si =
     (case skip_newlines s si of
        ([], si') \<Rightarrow> Inr (quantum_bytes dbuf)
      | (c # s', si') \<Rightarrow> Inl (CorruptInputError si'))"

text \<open>
  A \<open>=\<close> was read at offset \<open>si - 1\<close>: it may only stand third (a second \<open>=\<close> must
  follow) or fourth in its group.
\<close>

definition padding :: "nat list \<Rightarrow> string \<Rightarrow> nat \<Rightarrow> CorruptInputError + byte list" where
  "padding dbuf s si =
     (if length dbuf < 2 then Inl (CorruptInputError (si - 1))
      else if length dbuf = 2 then
        (case skip_newlines s si of
           ([], si') \<Rightarrow> Inl (CorruptInputError si')
         | (c # s', si') \<Rightarrow>
             if c \<noteq> CHR ''='' then Inl (CorruptInputError (si' - 1))
             else trailing dbuf s' (Suc si'))
      else trailing dbuf s si)"

fun decode :: "nat list \<Rightarrow> string \<Rightarrow> nat \<Rightarrow> CorruptInputError + byte list" where
  "decode dbuf [] si =
     (if dbuf = [] then Inr [] else Inl (CorruptInputError (si - length dbuf)))"
| "decode dbuf (c # s) si =
     (case decodeMap c of
        Some out \<Rightarrow>
          if length dbuf = 3
          then (case decode [] s (Suc si) of
                  Inl err \<Rightarrow> Inl err
                | Inr bytes \<Rightarrow> Inr (quantum_bytes (dbuf @ [out]) @ bytes))
          else decode (dbuf @ [out]) s (Suc si)
      | None \<Rightarrow>
          if is_newline c then decode dbuf s (Suc si)
          else if c \<noteq> CHR ''='' then Inl (CorruptInputError si)
          else padding dbuf s (Suc si))"

definition DecodeString :: "string \<Rightarrow> CorruptInputError + byte list" where
  "DecodeString s = decode [] s 0"

subsection \<open>The message and the collaborators\<close>

text \<open>\<^verbatim>\<open>sdk.Coin\<close>: a denomination and an amount.\<close>

record Coin =
  denom :: string
  amount :: int

text \<open>
  Modelled from the spec: \<^verbatim>\<open>types.MsgAuctionBid\<close> and its constructor
  \<^verbatim>\<open>types.NewMsgAuctionBid\<close> are not among the sources. The spec gives the message as
  a bidder, a bid coin and an ordered sequence of opaque transaction bytes.
\<close>

record 'addr MsgAuctionBid =
  bidder :: 'addr
  bid :: Coin
  transactions :: "byte list list"

definition NewMsgAuctionBid :: "'addr \<Rightarrow> Coin \<Rightarrow> byte list list \<Rightarrow> 'addr MsgAuctionBid" where
  "NewMsgAuctionBid bidder' bid' transactions' =
     \<lparr>bidder = bidder', bid = bid', transactions = transactions'\<rparr>"

text \<open>The names of the two flags, constants of the SDK's \<^verbatim>\<open>client/flags\<close>.\<close>

definition FlagFrom :: string where
  "FlagFrom = ''from''"

definition FlagTimeoutHeight :: string where
  "FlagTimeoutHeight = ''timeout-height''"

text \<open>
  What the command calls outside the repository is a parameter of the model: the flag set
  of the command (\<open>'fl\<close>, with \<^verbatim>\<open>Set\<close> and \<^verbatim>\<open>GetUint64\<close>), the client context
  (\<open>'cc\<close>) that \<^verbatim>\<open>client.GetClientTxContext\<close> builds from the flags, the address
  (\<open>'addr\<close>) it holds, the coin parser, and \<^verbatim>\<open>tx.GenerateOrBroadcastTxCLI\<close>, of
  which the model keeps the error it returns. \<open>'e\<close> are the errors of these functions.
\<close>

record ('fl, 'cc, 'addr, 'e) collaborators =
  Flags_Set :: "'fl \<Rightarrow> string \<Rightarrow> string \<Rightarrow> 'e + 'fl"
  Flags_GetUint64 :: "'fl \<Rightarrow> string \<Rightarrow> 'e + 64 word"
  GetClientTxContext :: "'fl \<Rightarrow> 'e + 'cc"
  GetFromAddress :: "'cc \<Rightarrow> 'addr"
  ParseCoinNormalized :: "string \<Rightarrow> 'e + Coin"
  GenerateOrBroadcastTxCLI :: "'cc \<Rightarrow> 'fl \<Rightarrow> 'addr MsgAuctionBid \<Rightarrow> 'e option"

text \<open>
  The errors of the command: one a collaborator returned, passed on as it is; the one of
  \<^verbatim>\<open>cobra.ExactArgs\<close> (wanted and received number of arguments); one made by
  \<^verbatim>\<open>errors.New\<close> from a message; and the one made by \<^verbatim>\<open>fmt.Errorf\<close> around a
  base64 error, with the index of the bundled transaction.
\<close>

datatype 'e error =
  Returned 'e
| ExactArgs nat nat
| ErrorsNew string
| DecodeBundledTx nat CorruptInputError

text \<open>
  A run of the command either returns an error before it reaches
  \<^verbatim>\<open>tx.GenerateOrBroadcastTxCLI\<close>, or hands a message over to it and returns what it
  returns.
\<close>

datatype ('addr, 'e) outcome =
  Aborted "'e error"
| Submitted "'addr MsgAuctionBid" "'e option"

subsection \<open>The command\<close>

text \<open>The loop over the tokens, \<open>i\<close> the index of the first one.\<close>

fun decode_tokens :: "nat \<Rightarrow> string list \<Rightarrow> 'e error + byte list list" where
  "decode_tokens i [] = Inr []"
| "decode_tokens i (token # tokens) =
     (case DecodeString token of
        Inl err \<Rightarrow> Inl (DecodeBundledTx i err)
      | Inr rawTx \<Rightarrow>
          (case decode_tokens (Suc i) tokens of
             Inl err \<Rightarrow> Inl err
           | Inr bundledTxs \<Rightarrow> Inr (rawTx # bundledTxs)))"

text \<open>
  \<^verbatim>\<open>timeoutHeight, _ := cmd.Flags().GetUint64(flags.FlagTimeoutHeight)\<close>: the error is
  dropped, and with an error Go returns 0.
\<close>

definition timeoutHeight :: "('fl, 'cc, 'addr, 'e) collaborators \<Rightarrow> 'fl \<Rightarrow> 64 word" where
  "timeoutHeight K cmd =
     (case Flags_GetUint64 K cmd FlagTimeoutHeight of Inl err \<Rightarrow> 0 | Inr v \<Rightarrow> v)"

definition RunE ::
  "('fl, 'cc, 'addr, 'e) collaborators \<Rightarrow> 'fl \<Rightarrow> string list \<Rightarrow> ('addr, 'e) outcome"
where
  "RunE K cmd args =
     (case Flags_Set K cmd FlagFrom (args ! 0) of
        Inl err \<Rightarrow> Aborted (Returned err)
      | Inr cmd' \<Rightarrow>
     (case GetClientTxContext K cmd' of
        Inl err \<Rightarrow> Aborted (Returned err)
      | Inr clientCtx \<Rightarrow>
     (case ParseCoinNormalized K (args ! 1) of
        Inl err \<Rightarrow> Aborted (Returned err)
      | Inr bid' \<Rightarrow>
          if timeoutHeight K cmd' = 0
          then Aborted (ErrorsNew ''timeout height must be greater than 0'')
          else
            (case decode_tokens 0 (strings_Split (args ! 2) (CHR '','')) of
               Inl err \<Rightarrow> Aborted err
             | Inr bundledTxs \<Rightarrow>
                 let msg = NewMsgAuctionBid (GetFromAddress K clientCtx) bid' bundledTxs
                 in Submitted msg (GenerateOrBroadcastTxCLI K clientCtx cmd' msg)))))"

text \<open>
  The command runs \<^verbatim>\<open>RunE\<close> on exactly three arguments (\<^verbatim>\<open>cobra.ExactArgs(3)\<close>), so
  that \<^verbatim>\<open>args[0]\<close>, \<^verbatim>\<open>args[1]\<close> and \<^verbatim>\<open>args[2]\<close> are in range there.
\<close>

definition NewAuctionBidTx ::
  "('fl, 'cc, 'addr, 'e) collaborators \<Rightarrow> 'fl \<Rightarrow> string list \<Rightarrow> ('addr, 'e) outcome"
where
  "NewAuctionBidTx K cmd args =
     (if length args \<noteq> 3 then Aborted (ExactArgs 3 (length args)) else RunE K cmd args)"

section \<open>The persisted types of the builder module (the proto file)\<close>

text \<open>
  The proto messages \<^verbatim>\<open>Params\<close> and \<^verbatim>\<open>GenesisState\<close>, field by field in the order
  of their field numbers: \<^verbatim>\<open>uint32\<close> is a 32-bit word, \<^verbatim>\<open>cosmos.base.v1beta1.Coin\<close>
  the coin above, and \<^verbatim>\<open>proposer_fee\<close>, a string on the wire with the custom type
  \<^verbatim>\<open>Dec\<close>, a decimal.
\<close>

record Params =
  max_bundle_size :: "32 word"
  escrow_account_address :: string
  reserve_fee :: Coin
  min_buy_in_fee :: Coin
  min_bid_increment :: Coin
  front_running_protection :: bool
  proposer_fee :: Dec

record GenesisState =
  params :: Params

subsection \<open>Example lanes\<close>

text \<open>
  Concrete lanes on which the theorems below are evaluated: contexts are \<open>unit\<close>,
  transactions, handles and handlers are numbers. The configuration check of the example
  accepts a quota between 0 and 1. The top-of-block lane takes the transactions below 10;
  the default lane takes every transaction and ignores the top-of-block lane.
\<close>

definition example_methods :: "(unit, nat, nat, nat) lane_methods" where
  "example_methods =
     \<lparr>cfg_ValidateBasic =
        (\<lambda>c. if units (MaxBlockSpace c) < 0 \<or> 10 ^ 18 < units (MaxBlockSpace c)
             then Some ''max block space must be set to a value between 0 and 1'' else None),
      DefaultPrepareLaneHandler = (\<lambda>l. Some 100),
      DefaultProcessLaneHandler = (\<lambda>l. Some 101),
      DefaultCheckOrderHandler = (\<lambda>l. Some 102)\<rparr>"

definition example_tob_cfg ::
  "((unit, nat, nat, nat) LaneConstructor, nat) BaseLaneConfig" where
  "example_tob_cfg = BaseLaneConfig 0 1 2 3 (Dec (2 * 10 ^ 17)) []"

definition example_tob_lane :: "(unit, nat, nat, nat) LaneConstructor" where
  "example_tob_lane =
     LaneConstructor example_tob_cfg ''top-of-block'' (Some 4)
       (Some (\<lambda>ctx tx. tx < 10)) (Some 100) (Some 102) (Some 101)"

definition example_default_lane :: "(unit, nat, nat, nat) LaneConstructor" where
  "example_default_lane =
     LaneConstructor (BaseLaneConfig 0 1 2 3 (Dec 0) [example_tob_lane]) ''default'' (Some 5)
       (Some (\<lambda>ctx tx. True)) (Some 100) (Some 102) (Some 101)"

text \<open>
  A lane as the struct stands before \<^verbatim>\<open>ValidateBasic\<close> ran, with a check-order
  handler of its own and the two other handlers \<^verbatim>\<open>nil\<close>.
\<close>

definition example_bare_lane :: "(unit, nat, nat, nat) LaneConstructor" where
  "example_bare_lane =
     LaneConstructor example_tob_cfg ''top-of-block'' (Some 4)
       (Some (\<lambda>ctx tx. tx < 10)) None (Some 7) None"

subsection \<open>Example collaborators\<close>

text \<open>
  A concrete environment on which the theorems on the command are evaluated: the flag set
  is the pair of the \<^verbatim>\<open>from\<close> flag and the timeout height, the client context and the
  address are the \<^verbatim>\<open>from\<close> flag, the coin parser knows one coin, and the hand-over
  succeeds.
\<close>

definition example_collaborators ::
  "(string \<times> 64 word, string, string, string) collaborators" where
  "example_collaborators =
     \<lparr>Flags_Set = (\<lambda>fl name v. if name = FlagFrom then Inr (v, snd fl) else Inl ''no such flag''),
      Flags_GetUint64 =
        (\<lambda>fl name. if name = FlagTimeoutHeight then Inr (snd fl)
                   else Inl ''flag accessed but not defined''),
      GetClientTxContext = (\<lambda>fl. if fst fl = [] then Inl ''no key name or address'' else Inr (fst fl)),
      GetFromAddress = (\<lambda>cc. cc),
      ParseCoinNormalized =
        (\<lambda>s. if s = ''10000uatom'' then Inr \<lparr>denom = ''uatom'', amount = 10000\<rparr>
             else Inl ''invalid decimal coin expression''),
      GenerateOrBroadcastTxCLI = (\<lambda>cc fl msg. None)\<rparr>"

section \<open>Properties of the lane constructor\<close>

subsection \<open>Auxiliary facts\<close>

lemma Match_LaneConstructor:
  "Match (LaneConstructor c n m mh p co pr) ctx tx =
     (case mh of
        None \<Rightarrow> Inl (Panic ''invalid memory address or nil pointer dereference'')
      | Some h \<Rightarrow>
          if h ctx tx
          then (case CheckIgnoreList (LaneConstructor c n m mh p co pr) ctx tx of
                  Inl e \<Rightarrow> Inl e | Inr b \<Rightarrow> Inr (\<not> b))
          else Inr False)"
  by (simp add: Match.simps)

lemma CheckIgnoreList_LaneConstructor:
  "CheckIgnoreList (LaneConstructor (BaseLaneConfig lg te td ah mbs il) n m mh p co pr) ctx tx =
     range_IgnoreList (\<lambda>lane. Match lane ctx tx) il"
  by (simp add: CheckIgnoreList.simps)

lemma range_IgnoreList_returns:
  "\<forall>lane \<in> set lanes. \<exists>b. m lane = Inr b \<Longrightarrow>
     range_IgnoreList m lanes = Inr (\<exists>lane \<in> set lanes. m lane = Inr True)"
  by (induction lanes) (auto split: sum.splits bool.splits)

lemma Match_returns:
  "matchHandlers_set l \<Longrightarrow> \<exists>b. Match l ctx tx = Inr b"
proof (induction l rule: matchHandlers_set.induct)
  case (1 l)
  from "1.prems" obtain h where h: "matchHandler l = Some h"
    and il: "list_all matchHandlers_set (IgnoreList (cfg l))"
    by (auto simp: matchHandlers_set.simps [of l])
  have "\<forall>lane \<in> set (IgnoreList (cfg l)). \<exists>b. Match lane ctx tx = Inr b"
    using "1.IH" il by (auto simp: list_all_iff)
  then have "CheckIgnoreList l ctx tx =
      Inr (\<exists>lane \<in> set (IgnoreList (cfg l)). Match lane ctx tx = Inr True)"
    unfolding CheckIgnoreList.simps [of l] by (rule range_IgnoreList_returns)
  with h show ?case by (auto simp: Match.simps [of l])
qed

lemma CheckIgnoreList_returns:
  assumes "list_all matchHandlers_set (IgnoreList (cfg l))"
  shows "CheckIgnoreList l ctx tx =
      Inr (\<exists>lane \<in> set (IgnoreList (cfg l)). Match lane ctx tx = Inr True)"
proof -
  have "\<forall>lane \<in> set (IgnoreList (cfg l)). \<exists>b. Match lane ctx tx = Inr b"
    using assms by (auto simp: list_all_iff intro: Match_returns)
  then show ?thesis
    unfolding CheckIgnoreList.simps [of l] by (rule range_IgnoreList_returns)
qed

text \<open>
  A lane that \<^verbatim>\<open>NewLaneConstructor\<close> returned has a match handler; so it is in
  \<open>matchHandlers_set\<close> when the lanes of its ignore list are, and stays so when such
  lanes are set as its ignore list.
\<close>

lemma NewLaneConstructor_matchHandlers_set:
  assumes "NewLaneConstructor X c n m mh = Inr lane"
    and "list_all matchHandlers_set (IgnoreList c)"
  shows "matchHandlers_set lane"
proof -
  from assms(1) have "cfg lane = c \<and> (\<exists>h. matchHandler lane = Some h)"
    by (auto simp: NewLaneConstructor_def ValidateBasic_def Let_def
        split: option.splits if_splits)
  with assms(2) show ?thesis by (simp add: matchHandlers_set.simps [of lane])
qed

lemma SetIgnoreList_matchHandlers_set:
  assumes "matchHandlers_set l" and "list_all matchHandlers_set lanes"
  shows "matchHandlers_set (SetIgnoreList lanes l)"
proof (cases l)
  case (LaneConstructor c n m mh p co pr)
  with assms show ?thesis
    by (cases c) (simp add: matchHandlers_set.simps [of l]
        matchHandlers_set.simps [of "LaneConstructor c' n m mh p co pr" for c'])
qed

lemma example_tob_lane_Match: "Match example_tob_lane () tx = Inr (tx < 10)"
  by (simp add: example_tob_lane_def example_tob_cfg_def Match_LaneConstructor
      CheckIgnoreList_LaneConstructor)

lemma example_default_lane_ignores:
  "list_all matchHandlers_set (IgnoreList (cfg example_default_lane))"
  by (simp add: example_default_lane_def example_tob_lane_def example_tob_cfg_def
      matchHandlers_set.simps)

subsection \<open>Match\<close>

text \<open>
  Claim C1. For every context and transaction, \<^verbatim>\<open>Match\<close> returns \<^verbatim>\<open>true\<close>
  exactly when the lane's match handler returns \<^verbatim>\<open>true\<close> and no lane of the
  lane's ignore list matches the transaction. The ignored lanes are lanes that went
  through \<^verbatim>\<open>ValidateBasic\<close>, so that none of their match handlers is \<^verbatim>\<open>nil\<close>.
\<close>

theorem Match_iff_handler_and_not_ignored:
  assumes "list_all matchHandlers_set (IgnoreList (cfg l))"
  shows "(Match l ctx tx = Inr True) =
     ((\<exists>h. matchHandler l = Some h \<and> h ctx tx) \<and>
      \<not> (\<exists>lane \<in> set (IgnoreList (cfg l)). Match lane ctx tx = Inr True))"
  using CheckIgnoreList_returns [OF assms, of ctx tx]
  by (auto simp: Match.simps [of l] split: option.splits)

theorem Match_iff_handler_and_not_ignored_witness:
  "list_all matchHandlers_set (IgnoreList (cfg example_default_lane)) \<and>
   Match example_default_lane () 12 = Inr True \<and>
   Match example_default_lane () 3 \<noteq> Inr True"
  using example_default_lane_ignores
    Match_iff_handler_and_not_ignored [OF example_default_lane_ignores, of "()" 12]
    Match_iff_handler_and_not_ignored [OF example_default_lane_ignores, of "()" 3]
  by (simp add: example_default_lane_def example_tob_lane_Match)

text \<open>
  Claim C10. \<^verbatim>\<open>CheckIgnoreList\<close> decides by the \<^verbatim>\<open>Match\<close> of the ignored lanes:
  it returns \<^verbatim>\<open>true\<close> exactly when some lane of the ignore list matches the
  transaction, and \<^verbatim>\<open>false\<close> exactly when none does. The \<^verbatim>\<open>Match\<close> of an
  ignored lane is again its match handler together with its own ignore list. A lane
  with an empty ignore list matches exactly as its match handler says. The ignored lanes
  are lanes without a \<^verbatim>\<open>nil\<close> match handler.
\<close>

theorem CheckIgnoreList_by_lane_Match:
  assumes "list_all matchHandlers_set (IgnoreList (cfg l))"
  shows "(CheckIgnoreList l ctx tx = Inr True) =
       (\<exists>lane \<in> set (IgnoreList (cfg l)). Match lane ctx tx = Inr True) \<and>
     (CheckIgnoreList l ctx tx = Inr False) =
       (\<not> (\<exists>lane \<in> set (IgnoreList (cfg l)). Match lane ctx tx = Inr True)) \<and>
     (\<forall>lane \<in> set (IgnoreList (cfg l)).
        (Match lane ctx tx = Inr True) =
          ((\<exists>h. matchHandler lane = Some h \<and> h ctx tx) \<and>
           CheckIgnoreList lane ctx tx = Inr False)) \<and>
     (\<forall>h. IgnoreList (cfg l) = [] \<and> matchHandler l = Some h \<longrightarrow>
        Match l ctx tx = Inr (h ctx tx))"
proof -
  have a: "CheckIgnoreList l ctx tx =
      Inr (\<exists>lane \<in> set (IgnoreList (cfg l)). Match lane ctx tx = Inr True)"
    using assms by (rule CheckIgnoreList_returns)
  have b: "(Match lane ctx tx = Inr True) =
          ((\<exists>h. matchHandler lane = Some h \<and> h ctx tx) \<and>
           CheckIgnoreList lane ctx tx = Inr False)" for lane :: "('a, 'b, 'c, 'd) LaneConstructor"
    by (auto simp: Match.simps [of lane] split: option.splits sum.splits)
  have c: "\<forall>h. IgnoreList (cfg l) = [] \<and> matchHandler l = Some h \<longrightarrow>
        Match l ctx tx = Inr (h ctx tx)"
    by (simp add: Match.simps [of l] CheckIgnoreList.simps [of l])
  from a b c show ?thesis by simp
qed

theorem CheckIgnoreList_by_lane_Match_witness:
  "list_all matchHandlers_set (IgnoreList (cfg example_default_lane)) \<and>
   CheckIgnoreList example_default_lane () 3 = Inr True \<and>
   CheckIgnoreList example_default_lane () 12 = Inr False \<and>
   Match example_tob_lane () 3 = Inr True"
  using example_default_lane_ignores
    CheckIgnoreList_by_lane_Match [OF example_default_lane_ignores, of "()" 3]
    CheckIgnoreList_by_lane_Match [OF example_default_lane_ignores, of "()" 12]
  by (simp add: example_default_lane_def example_tob_lane_Match)

subsection \<open>Construction\<close>

text \<open>
  Claim C2. \<^verbatim>\<open>NewLaneConstructor\<close> panics exactly when a required field is missing:
  the configuration fails its own \<^verbatim>\<open>ValidateBasic\<close>, the name is empty, the mempool is
  \<^verbatim>\<open>nil\<close> or the match handler is \<^verbatim>\<open>nil\<close>. In every other case it returns a lane.
\<close>

theorem NewLaneConstructor_panics_iff:
  "(\<exists>err. NewLaneConstructor X c n m mh = Inl (Panic err)) =
     (cfg_ValidateBasic X c \<noteq> None \<or> n = [] \<or> m = None \<or> mh = None) \<and>
   (\<exists>lane. NewLaneConstructor X c n m mh = Inr lane) =
     (cfg_ValidateBasic X c = None \<and> n \<noteq> [] \<and> m \<noteq> None \<and> mh \<noteq> None)"
  by (auto simp: NewLaneConstructor_def ValidateBasic_def Let_def split: option.splits)

theorem NewLaneConstructor_panics_iff_witness:
  "(\<exists>lane. NewLaneConstructor example_methods example_tob_cfg
      ''top-of-block'' (Some 4) (Some (\<lambda>ctx tx. tx < 10)) = Inr lane) \<and>
   (\<exists>err. NewLaneConstructor example_methods example_tob_cfg
      [] (Some 4) (Some (\<lambda>ctx tx. tx < 10)) = Inl (Panic err)) \<and>
   (\<exists>err. NewLaneConstructor example_methods (BaseLaneConfig 0 1 2 3 (Dec (2 * 10 ^ 18)) [])
      ''top-of-block'' (Some 4) (Some (\<lambda>ctx tx. tx < 10)) = Inl (Panic err)) \<and>
   (\<exists>err. NewLaneConstructor example_methods example_tob_cfg
      ''top-of-block'' None (Some (\<lambda>ctx tx. tx < 10)) = Inl (Panic err)) \<and>
   (\<exists>err. NewLaneConstructor example_methods example_tob_cfg
      ''top-of-block'' (Some 4) None = Inl (Panic err))"
  using NewLaneConstructor_panics_iff [of example_methods example_tob_cfg
      "''top-of-block''" "Some 4" "Some (\<lambda>ctx tx. tx < 10)"]
    NewLaneConstructor_panics_iff [of example_methods example_tob_cfg
      "[]" "Some 4" "Some (\<lambda>ctx tx. tx < 10)"]
    NewLaneConstructor_panics_iff [of example_methods "BaseLaneConfig 0 1 2 3 (Dec (2 * 10 ^ 18)) []"
      "''top-of-block''" "Some 4" "Some (\<lambda>ctx tx. tx < 10)"]
    NewLaneConstructor_panics_iff [of example_methods example_tob_cfg
      "''top-of-block''" "None" "Some (\<lambda>ctx tx. tx < 10)"]
    NewLaneConstructor_panics_iff [of example_methods example_tob_cfg
      "''top-of-block''" "Some 4" "None"]
  by (simp add: example_methods_def example_tob_cfg_def)

text \<open>
  Claim C3. On a lane with a valid configuration, a name, a mempool and a match handler,
  \<^verbatim>\<open>ValidateBasic\<close> returns \<^verbatim>\<open>nil\<close>; the configuration, name, mempool and
  match handler stay; each of the prepare, process and check-order handlers that was
  \<^verbatim>\<open>nil\<close> is the one the lane's factory returned (called on the lane as it stands at
  that point), each other one is kept. With factories that return handlers, none of the
  four handlers is \<^verbatim>\<open>nil\<close> afterwards, nor on any lane that
  \<^verbatim>\<open>NewLaneConstructor\<close> returned.
\<close>

theorem ValidateBasic_fills_default_handlers:
  assumes "cfg_ValidateBasic X (cfg l) = None" and "laneName l \<noteq> []"
    and "LaneMempool l \<noteq> None" and "matchHandler l \<noteq> None"
    and "\<forall>r. DefaultPrepareLaneHandler X r \<noteq> None"
    and "\<forall>r. DefaultProcessLaneHandler X r \<noteq> None"
    and "\<forall>r. DefaultCheckOrderHandler X r \<noteq> None"
  shows "\<exists>l'. ValidateBasic X l = (l', None) \<and>
      cfg l' = cfg l \<and> laneName l' = laneName l \<and> LaneMempool l' = LaneMempool l \<and>
      matchHandler l' = matchHandler l \<and>
      prepareLaneHandler l' =
        (if prepareLaneHandler l = None then DefaultPrepareLaneHandler X l
         else prepareLaneHandler l) \<and>
      processLaneHandler l' =
        (if processLaneHandler l = None
         then DefaultProcessLaneHandler X (SetPrepareLaneHandler (prepareLaneHandler l') l)
         else processLaneHandler l) \<and>
      checkOrderHandler l' =
        (if checkOrderHandler l = None
         then DefaultCheckOrderHandler X
                (SetProcessLaneHandler (processLaneHandler l')
                   (SetPrepareLaneHandler (prepareLaneHandler l') l))
         else checkOrderHandler l) \<and>
      matchHandler l' \<noteq> None \<and> prepareLaneHandler l' \<noteq> None \<and>
      processLaneHandler l' \<noteq> None \<and> checkOrderHandler l' \<noteq> None \<and>
      (\<forall>c n m mh lane. NewLaneConstructor X c n m mh = Inr lane \<longrightarrow>
         matchHandler lane \<noteq> None \<and> prepareLaneHandler lane \<noteq> None \<and>
         processLaneHandler lane \<noteq> None \<and> checkOrderHandler lane \<noteq> None)"
proof -
  have new: "\<forall>c n m mh lane. NewLaneConstructor X c n m mh = Inr lane \<longrightarrow>
         matchHandler lane \<noteq> None \<and> prepareLaneHandler lane \<noteq> None \<and>
         processLaneHandler lane \<noteq> None \<and> checkOrderHandler lane \<noteq> None"
    using assms(5-7)
    by (auto simp: NewLaneConstructor_def ValidateBasic_def Let_def
        split: option.splits if_splits)
  have "\<exists>l'. ValidateBasic X l = (l', None) \<and>
      cfg l' = cfg l \<and> laneName l' = laneName l \<and> LaneMempool l' = LaneMempool l \<and>
      matchHandler l' = matchHandler l \<and>
      prepareLaneHandler l' =
        (if prepareLaneHandler l = None then DefaultPrepareLaneHandler X l
         else prepareLaneHandler l) \<and>
      processLaneHandler l' =
        (if processLaneHandler l = None
         then DefaultProcessLaneHandler X (SetPrepareLaneHandler (prepareLaneHandler l') l)
         else processLaneHandler l) \<and>
      checkOrderHandler l' =
        (if checkOrderHandler l = None
         then DefaultCheckOrderHandler X
                (SetProcessLaneHandler (processLaneHandler l')
                   (SetPrepareLaneHandler (prepareLaneHandler l') l))
         else checkOrderHandler l) \<and>
      matchHandler l' \<noteq> None \<and> prepareLaneHandler l' \<noteq> None \<and>
      processLaneHandler l' \<noteq> None \<and> checkOrderHandler l' \<noteq> None"
    using assms by (cases l) (auto simp: ValidateBasic_def Let_def)
  with new show ?thesis by blast
qed

theorem ValidateBasic_fills_default_handlers_witness:
  "ValidateBasic example_methods example_bare_lane =
     (LaneConstructor example_tob_cfg ''top-of-block'' (Some 4)
        (matchHandler example_bare_lane) (Some 100) (Some 7) (Some 101), None)"
proof -
  have 1: "cfg_ValidateBasic example_methods (cfg example_bare_lane) = None"
    by (simp add: example_methods_def example_bare_lane_def example_tob_cfg_def)
  have 2: "laneName example_bare_lane \<noteq> []" "LaneMempool example_bare_lane \<noteq> None"
    "matchHandler example_bare_lane \<noteq> None"
    by (simp_all add: example_bare_lane_def)
  have 3: "\<forall>r. DefaultPrepareLaneHandler example_methods r \<noteq> None"
    "\<forall>r. DefaultProcessLaneHandler example_methods r \<noteq> None"
    "\<forall>r. DefaultCheckOrderHandler example_methods r \<noteq> None"
    by (simp_all add: example_methods_def)
  from ValidateBasic_fills_default_handlers [OF 1 2 3]
  obtain l' where l': "ValidateBasic example_methods example_bare_lane = (l', None)"
    "cfg l' = cfg example_bare_lane" "laneName l' = laneName example_bare_lane"
    "LaneMempool l' = LaneMempool example_bare_lane"
    "matchHandler l' = matchHandler example_bare_lane"
    "prepareLaneHandler l' =
        (if prepareLaneHandler example_bare_lane = None
         then DefaultPrepareLaneHandler example_methods example_bare_lane
         else prepareLaneHandler example_bare_lane)"
    "processLaneHandler l' =
        (if processLaneHandler example_bare_lane = None
         then DefaultProcessLaneHandler example_methods
                (SetPrepareLaneHandler (prepareLaneHandler l') example_bare_lane)
         else processLaneHandler example_bare_lane)"
    "checkOrderHandler l' =
        (if checkOrderHandler example_bare_lane = None
         then DefaultCheckOrderHandler example_methods
                (SetProcessLaneHandler (processLaneHandler l')
                   (SetPrepareLaneHandler (prepareLaneHandler l') example_bare_lane))
         else checkOrderHandler example_bare_lane)"
    by blast
  have "l' = LaneConstructor example_tob_cfg ''top-of-block'' (Some 4)
        (matchHandler example_bare_lane) (Some 100) (Some 7) (Some 101)"
    using l'(2-8) by (cases l') (simp add: example_bare_lane_def example_methods_def)
  with l'(1) show ?thesis by simp
qed

subsection \<open>Setters\<close>

text \<open>
  Claim C8. Each of \<^verbatim>\<open>SetPrepareLaneHandler\<close>, \<^verbatim>\<open>SetProcessLaneHandler\<close> and
  \<^verbatim>\<open>SetCheckOrderHandler\<close> replaces its own handler of the lane, whatever the lane, and
  leaves the configuration, the name, the mempool, the match handler and the two other
  handlers as they were.
\<close>

theorem Set_handlers_frame:
  "prepareLaneHandler (SetPrepareLaneHandler h l) = h \<and>
   cfg (SetPrepareLaneHandler h l) = cfg l \<and>
   laneName (SetPrepareLaneHandler h l) = laneName l \<and>
   LaneMempool (SetPrepareLaneHandler h l) = LaneMempool l \<and>
   matchHandler (SetPrepareLaneHandler h l) = matchHandler l \<and>
   processLaneHandler (SetPrepareLaneHandler h l) = processLaneHandler l \<and>
   checkOrderHandler (SetPrepareLaneHandler h l) = checkOrderHandler l \<and>
   processLaneHandler (SetProcessLaneHandler h l) = h \<and>
   cfg (SetProcessLaneHandler h l) = cfg l \<and>
   laneName (SetProcessLaneHandler h l) = laneName l \<and>
   LaneMempool (SetProcessLaneHandler h l) = LaneMempool l \<and>
   matchHandler (SetProcessLaneHandler h l) = matchHandler l \<and>
   prepareLaneHandler (SetProcessLaneHandler h l) = prepareLaneHandler l \<and>
   checkOrderHandler (SetProcessLaneHandler h l) = checkOrderHandler l \<and>
   checkOrderHandler (SetCheckOrderHandler h l) = h \<and>
   cfg (SetCheckOrderHandler h l) = cfg l \<and>
   laneName (SetCheckOrderHandler h l) = laneName l \<and>
   LaneMempool (SetCheckOrderHandler h l) = LaneMempool l \<and>
   matchHandler (SetCheckOrderHandler h l) = matchHandler l \<and>
   prepareLaneHandler (SetCheckOrderHandler h l) = prepareLaneHandler l \<and>
   processLaneHandler (SetCheckOrderHandler h l) = processLaneHandler l"
  by (cases l) simp

section \<open>Properties of the auction-bid command\<close>

subsection \<open>Splitting at the separator\<close>

text \<open>
  \<open>strings_Split\<close> is the splitting that Go documents: no piece holds the separator,
  there is one piece more than there are separators, and joining the pieces gives the
  string back.
\<close>

lemma genSplit_not_Nil: "genSplit a s sep \<noteq> []"
  by (induction s arbitrary: a) auto

lemma strings_Join_Cons:
  "elems \<noteq> [] \<Longrightarrow> strings_Join (a # elems) sep = a @ sep # strings_Join elems sep"
  by (cases elems) auto

lemma genSplit_Join: "strings_Join (genSplit a s sep) sep = a @ s"
  by (induction s arbitrary: a) (auto simp: strings_Join_Cons genSplit_not_Nil)

lemma genSplit_no_sep:
  "sep \<notin> set a \<Longrightarrow> \<forall>t \<in> set (genSplit a s sep). sep \<notin> set t"
proof (induction s arbitrary: a)
  case Nil
  then show ?case by simp
next
  case (Cons c s)
  show ?case
  proof (cases "c = sep")
    case True
    with Cons.IH [of "[]"] Cons.prems show ?thesis by simp
  next
    case False
    with Cons.IH [of "a @ [c]"] Cons.prems show ?thesis by simp
  qed
qed

lemma genSplit_length: "length (genSplit a s sep) = Suc (count_list s sep)"
  by (induction s arbitrary: a) auto

lemma strings_Split_Join: "strings_Join (strings_Split s sep) sep = s"
  by (simp add: strings_Split_def genSplit_Join)

lemma strings_Split_no_sep: "t \<in> set (strings_Split s sep) \<Longrightarrow> sep \<notin> set t"
  using genSplit_no_sep [of sep "[]" s] by (simp add: strings_Split_def)

lemma strings_Split_length: "length (strings_Split s sep) = Suc (count_list s sep)"
  by (simp add: strings_Split_def genSplit_length)

subsection \<open>The loop over the tokens\<close>

lemma decode_tokens_Inr:
  "(decode_tokens i tokens = (Inr txs :: 'e error + byte list list)) =
     (map DecodeString tokens = map Inr txs)"
proof (induction tokens arbitrary: i txs)
  case Nil
  show ?case by auto
next
  case (Cons t ts)
  show ?case
  proof (cases txs)
    case Nil
    then show ?thesis by (simp split: sum.splits)
  next
    case (Cons x xs)
    have "(decode_tokens i (t # ts) = (Inr (x # xs) :: 'e error + byte list list)) =
        (DecodeString t = Inr x \<and> decode_tokens (Suc i) ts = (Inr xs :: 'e error + byte list list))"
      by (simp split: sum.splits)
    also have "\<dots> = (DecodeString t = Inr x \<and> map DecodeString ts = map Inr xs)"
      by (simp only: Cons.IH)
    finally show ?thesis using Cons by simp
  qed
qed

lemma decode_tokens_Inl:
  "decode_tokens i tokens = (Inl err :: 'e error + byte list list) \<Longrightarrow>
     \<exists>k e. err = DecodeBundledTx (i + k) e \<and> k < length tokens \<and>
        DecodeString (tokens ! k) = Inl e \<and>
        (\<forall>j<k. \<exists>raw. DecodeString (tokens ! j) = Inr raw)"
proof (induction tokens arbitrary: i)
  case Nil
  then show ?case by simp
next
  case (Cons t ts)
  show ?case
  proof (cases "DecodeString t")
    case (Inl e)
    with Cons.prems have "err = DecodeBundledTx (i + 0) e" by simp
    with Inl show ?thesis
      by (intro exI [of _ 0] exI [of _ e]) simp
  next
    case (Inr raw)
    with Cons.prems have "decode_tokens (Suc i) ts = (Inl err :: 'e error + byte list list)"
      by (simp split: sum.splits)
    from Cons.IH [OF this] obtain k e where k: "err = DecodeBundledTx (Suc i + k) e"
      "k < length ts" "DecodeString (ts ! k) = Inl e"
      "\<forall>j<k. \<exists>raw. DecodeString (ts ! j) = Inr raw"
      by blast
    have "\<forall>j<Suc k. \<exists>raw. DecodeString ((t # ts) ! j) = Inr raw"
    proof (intro allI impI)
      fix j assume "j < Suc k"
      then show "\<exists>raw. DecodeString ((t # ts) ! j) = Inr raw"
        using k(4) Inr by (cases j) simp_all
    qed
    with k show ?thesis
      by (intro exI [of _ "Suc k"] exI [of _ e]) simp
  qed
qed

lemma decode_tokens_invalid:
  assumes "t \<in> set tokens" and "DecodeString t = Inl e"
  shows "\<exists>err. decode_tokens i tokens = (Inl err :: 'e error + byte list list)"
proof (cases "decode_tokens i tokens :: 'e error + byte list list")
  case (Inl err)
  then show ?thesis by blast
next
  case (Inr txs)
  then have m: "map DecodeString tokens = map Inr txs" by (simp only: decode_tokens_Inr)
  from assms(1) obtain k where k: "k < length tokens" "tokens ! k = t"
    by (auto simp: in_set_conv_nth)
  from m have len: "length tokens = length txs" by (rule map_eq_imp_length_eq)
  from m have "map DecodeString tokens ! k = map Inr txs ! k" by simp
  with k len have "DecodeString t = Inr (txs ! k)" by simp
  with assms(2) show ?thesis by simp
qed

subsection \<open>Auxiliary facts on the command and on the example\<close>

lemma NewAuctionBidTx_three:
  "NewAuctionBidTx K cmd [a0, a1, a2] = RunE K cmd [a0, a1, a2]"
  by (simp add: NewAuctionBidTx_def)

lemma RunE_reaches_timeout_check:
  assumes "Flags_Set K cmd FlagFrom a0 = Inr cmd'" and "GetClientTxContext K cmd' = Inr cc"
    and "ParseCoinNormalized K a1 = Inr b"
  shows "RunE K cmd [a0, a1, a2] =
     (if timeoutHeight K cmd' = 0
      then Aborted (ErrorsNew ''timeout height must be greater than 0'')
      else (case decode_tokens 0 (strings_Split a2 (CHR '','')) of
              Inl err \<Rightarrow> Aborted err
            | Inr bundledTxs \<Rightarrow>
                Submitted (NewMsgAuctionBid (GetFromAddress K cc) b bundledTxs)
                  (GenerateOrBroadcastTxCLI K cc cmd'
                     (NewMsgAuctionBid (GetFromAddress K cc) b bundledTxs))))"
  using assms by (simp add: RunE_def Let_def split: sum.splits)

lemma RunE_Submitted:
  "(RunE K cmd [a0, a1, a2] = Submitted msg r) =
     (\<exists>cmd' cc b txs. Flags_Set K cmd FlagFrom a0 = Inr cmd' \<and>
        GetClientTxContext K cmd' = Inr cc \<and> ParseCoinNormalized K a1 = Inr b \<and>
        timeoutHeight K cmd' \<noteq> 0 \<and>
        decode_tokens 0 (strings_Split a2 (CHR '','')) = (Inr txs :: 'e error + byte list list) \<and>
        msg = NewMsgAuctionBid (GetFromAddress K cc) b txs \<and>
        r = GenerateOrBroadcastTxCLI K cc cmd' msg)"
  for K :: "('fl, 'cc, 'addr, 'e) collaborators"
  by (auto simp: RunE_def Let_def split: sum.splits)

lemma length_three: "(length args = 3) = (\<exists>a0 a1 a2. args = [a0, a1, a2])"
proof
  assume "length args = 3"
  then show "\<exists>a0 a1 a2. args = [a0, a1, a2]"
    by (cases args; cases "tl args"; cases "tl (tl args)") auto
qed auto

lemma DecodeString_AQID: "DecodeString ''AQID'' = Inr [1, 2, 3]"
  by (simp add: DecodeString_def decodeMap_def encodeStd_def is_newline_def quantum_bytes_def)

lemma example_Flags_Set:
  "Flags_Set example_collaborators fl FlagFrom v = Inr (v, snd fl)"
  by (simp add: example_collaborators_def)

lemma example_timeoutHeight: "timeoutHeight example_collaborators fl = snd fl"
  by (simp add: example_collaborators_def timeoutHeight_def)

lemma example_GetClientTxContext:
  "GetClientTxContext example_collaborators (''cosmos1abc'', h) = Inr ''cosmos1abc''"
  by (simp add: example_collaborators_def)

lemma example_ParseCoinNormalized:
  "ParseCoinNormalized example_collaborators ''10000uatom'' =
     Inr \<lparr>denom = ''uatom'', amount = 10000\<rparr>"
  by (simp add: example_collaborators_def)


lemma DecodeString_hello: "DecodeString ''aGVsbG8='' = Inr [104, 101, 108, 108, 111]"
  by (simp add: DecodeString_def decodeMap_def encodeStd_def is_newline_def padding_def
      trailing_def quantum_bytes_def)

lemma DecodeString_bangs: "DecodeString ''!!!'' = Inl (CorruptInputError 0)"
  by (simp add: DecodeString_def decodeMap_def encodeStd_def is_newline_def)

subsection \<open>The timeout height\<close>

text \<open>
  Claim C4. Whenever the timeout height that the command reads from its flags is 0, the
  command returns an error before it builds a \<^verbatim>\<open>MsgAuctionBid\<close> or hands one over for
  broadcast; when the steps before the check succeed, the error is the one of the check.
\<close>

theorem timeout_height_zero_aborts:
  assumes "\<forall>cmd'. Flags_Set K cmd FlagFrom (args ! 0) = Inr cmd' \<longrightarrow> timeoutHeight K cmd' = 0"
  shows "(\<exists>err. NewAuctionBidTx K cmd args = Aborted err) \<and>
     (\<forall>cmd' cc b. length args = 3 \<and> Flags_Set K cmd FlagFrom (args ! 0) = Inr cmd' \<and>
        GetClientTxContext K cmd' = Inr cc \<and> ParseCoinNormalized K (args ! 1) = Inr b \<longrightarrow>
        NewAuctionBidTx K cmd args =
          Aborted (ErrorsNew ''timeout height must be greater than 0''))"
  using assms by (auto simp: NewAuctionBidTx_def RunE_def split: sum.splits)

theorem timeout_height_zero_aborts_witness:
  "NewAuctionBidTx example_collaborators ([], 0) [''cosmos1abc'', ''10000uatom'', ''aGVsbG8=''] =
     Aborted (ErrorsNew ''timeout height must be greater than 0'')"
proof -
  have h: "\<forall>cmd'. Flags_Set example_collaborators ([], 0) FlagFrom
        ([''cosmos1abc'', ''10000uatom'', ''aGVsbG8=''] ! 0) = Inr cmd' \<longrightarrow>
      timeoutHeight example_collaborators cmd' = 0"
    by (auto simp: example_Flags_Set example_timeoutHeight)
  from timeout_height_zero_aborts [OF h]
  show ?thesis
    by (simp add: example_Flags_Set example_GetClientTxContext example_ParseCoinNormalized)
qed

subsection \<open>Bundled transactions that are not base64\<close>

text \<open>
  Claim C5, as stated, fails: a command line with a token that is not base64 and a timeout
  height of 0 returns the error of the timeout check, which names no index.
\<close>

theorem invalid_token_error_counterexample:
  "(\<exists>t \<in> set (strings_Split ''!!!'' (CHR '','')). \<exists>e. DecodeString t = Inl e) \<and>
   \<not> (\<exists>i e. NewAuctionBidTx example_collaborators ([], 0)
            [''cosmos1abc'', ''10000uatom'', ''!!!''] = Aborted (DecodeBundledTx i e))"
  by (simp add: strings_Split_def DecodeString_bangs NewAuctionBidTx_def RunE_def example_Flags_Set
      example_timeoutHeight example_GetClientTxContext example_ParseCoinNormalized)

text \<open>
  Claim C5, amended. Whenever some token of the third argument is not valid base64, the
  command returns an error and hands nothing over for broadcast. When moreover the steps
  before the bundle is read succeed (the from flag is set, the client context is built, the
  bid coin is parsed and the timeout height is not 0), the error carries the index of the
  first token that is not valid base64.
\<close>

theorem invalid_token_aborts_with_index:
  fixes K :: "('fl, 'cc, 'addr, 'e) collaborators"
  assumes "t \<in> set (strings_Split a2 (CHR '',''))" and "DecodeString t = Inl e"
  shows "(\<exists>err. NewAuctionBidTx K cmd [a0, a1, a2] = Aborted err) \<and>
     (\<forall>cmd' cc b. Flags_Set K cmd FlagFrom a0 = Inr cmd' \<and>
        GetClientTxContext K cmd' = Inr cc \<and> ParseCoinNormalized K a1 = Inr b \<and>
        timeoutHeight K cmd' \<noteq> 0 \<longrightarrow>
        (\<exists>k e'. NewAuctionBidTx K cmd [a0, a1, a2] = Aborted (DecodeBundledTx k e') \<and>
           k < length (strings_Split a2 (CHR '','')) \<and>
           DecodeString (strings_Split a2 (CHR '','') ! k) = Inl e' \<and>
           (\<forall>j<k. \<exists>raw. DecodeString (strings_Split a2 (CHR '','') ! j) = Inr raw)))"
proof -
  let ?tokens = "strings_Split a2 (CHR '','')"
  obtain err :: "'e error" where err: "decode_tokens 0 ?tokens = Inl err"
    using decode_tokens_invalid [OF assms] by blast
  from decode_tokens_Inl [OF err] obtain k e' where k: "err = DecodeBundledTx k e'"
    "k < length ?tokens" "DecodeString (?tokens ! k) = Inl e'"
    "\<forall>j<k. \<exists>raw. DecodeString (?tokens ! j) = Inr raw"
    by auto
  have "\<exists>x. RunE K cmd [a0, a1, a2] = Aborted x"
    using err by (simp add: RunE_def split: sum.splits)
  moreover have "RunE K cmd [a0, a1, a2] = Aborted (DecodeBundledTx k e')"
    if "Flags_Set K cmd FlagFrom a0 = Inr cmd'" "GetClientTxContext K cmd' = Inr cc"
      "ParseCoinNormalized K a1 = Inr b" "timeoutHeight K cmd' \<noteq> 0" for cmd' cc b
    using that err k(1) by (simp add: RunE_reaches_timeout_check)
  ultimately show ?thesis
    unfolding NewAuctionBidTx_three using k(2-4) by blast
qed

theorem invalid_token_aborts_with_index_witness:
  "NewAuctionBidTx example_collaborators ([], 7) [''cosmos1abc'', ''10000uatom'', ''aGVsbG8=,!!!''] =
     Aborted (DecodeBundledTx 1 (CorruptInputError 0))"
proof -
  have s: "strings_Split ''aGVsbG8=,!!!'' (CHR '','') = [''aGVsbG8='', ''!!!'']"
    by (simp add: strings_Split_def)
  have m: "''!!!'' \<in> set (strings_Split ''aGVsbG8=,!!!'' (CHR '',''))" by (simp only: s) simp
  from invalid_token_aborts_with_index [OF m DecodeString_bangs, of example_collaborators
      "([], 7)" "''cosmos1abc''" "''10000uatom''"]
  obtain k e' where k: "NewAuctionBidTx example_collaborators ([], 7)
        [''cosmos1abc'', ''10000uatom'', ''aGVsbG8=,!!!''] = Aborted (DecodeBundledTx k e')"
      "k < length (strings_Split ''aGVsbG8=,!!!'' (CHR '',''))"
      "DecodeString (strings_Split ''aGVsbG8=,!!!'' (CHR '','') ! k) = Inl e'"
    by (auto simp: example_Flags_Set example_timeoutHeight example_GetClientTxContext
        example_ParseCoinNormalized)
  from k(2) have "k = 0 \<or> k = 1" by (simp only: s) auto
  with k(3) have "k = 1 \<and> e' = CorruptInputError 0"
    by (auto simp only: s nth_Cons_0 DecodeString_hello DecodeString_bangs One_nat_def nth_Cons_Suc)
  with k(1) show ?thesis by simp
qed

subsection \<open>The message\<close>

text \<open>
  Claim C6. The command takes exactly three arguments. It hands a message over exactly
  when the from flag is set to the first argument, the client context is built from the
  flags, the second argument parses as a coin, the timeout height is not 0 and every
  token of the third argument, split at the commas, is base64; the message then is
  \<^verbatim>\<open>NewMsgAuctionBid\<close> of the context's from address, the coin and the decoded
  tokens in their order, and the command returns what the hand-over returns. A bid coin
  that does not parse makes the command return an error.
\<close>

theorem auction_bid_builds_msg:
  fixes K :: "('fl, 'cc, 'addr, 'e) collaborators"
  shows "(length args \<noteq> 3 \<longrightarrow> NewAuctionBidTx K cmd args = Aborted (ExactArgs 3 (length args))) \<and>
   (NewAuctionBidTx K cmd args = Submitted msg r) =
     (\<exists>a0 a1 a2 cmd' cc b txs. args = [a0, a1, a2] \<and>
        Flags_Set K cmd FlagFrom a0 = Inr cmd' \<and> GetClientTxContext K cmd' = Inr cc \<and>
        ParseCoinNormalized K a1 = Inr b \<and> timeoutHeight K cmd' \<noteq> 0 \<and>
        map DecodeString (strings_Split a2 (CHR '','')) = map Inr txs \<and>
        msg = NewMsgAuctionBid (GetFromAddress K cc) b txs \<and>
        r = GenerateOrBroadcastTxCLI K cc cmd' msg) \<and>
   (\<forall>e. ParseCoinNormalized K (args ! 1) = Inl e \<longrightarrow>
      (\<exists>err. NewAuctionBidTx K cmd args = Aborted err)) \<and>
   (\<forall>cmd' cc e. length args = 3 \<and> Flags_Set K cmd FlagFrom (args ! 0) = Inr cmd' \<and>
      GetClientTxContext K cmd' = Inr cc \<and> ParseCoinNormalized K (args ! 1) = Inl e \<longrightarrow>
      NewAuctionBidTx K cmd args = Aborted (Returned e))"
proof -
  have a: "length args \<noteq> 3 \<longrightarrow> NewAuctionBidTx K cmd args = Aborted (ExactArgs 3 (length args))"
    by (simp add: NewAuctionBidTx_def)
  have b: "(NewAuctionBidTx K cmd args = Submitted msg r) =
     (\<exists>a0 a1 a2 cmd' cc b txs. args = [a0, a1, a2] \<and>
        Flags_Set K cmd FlagFrom a0 = Inr cmd' \<and> GetClientTxContext K cmd' = Inr cc \<and>
        ParseCoinNormalized K a1 = Inr b \<and> timeoutHeight K cmd' \<noteq> 0 \<and>
        map DecodeString (strings_Split a2 (CHR '','')) = map Inr txs \<and>
        msg = NewMsgAuctionBid (GetFromAddress K cc) b txs \<and>
        r = GenerateOrBroadcastTxCLI K cc cmd' msg)"
  proof (cases "length args = 3")
    case False
    then have "NewAuctionBidTx K cmd args \<noteq> Submitted msg r"
      by (simp add: NewAuctionBidTx_def)
    moreover have "\<not> (\<exists>a0 a1 a2. args = [a0, a1, a2])"
      using False by (simp add: length_three)
    ultimately show ?thesis by blast
  next
    case True
    then obtain a0 a1 a2 where args: "args = [a0, a1, a2]"
      by (auto simp: length_three)
    show ?thesis
      unfolding args NewAuctionBidTx_three RunE_Submitted decode_tokens_Inr by simp
  qed
  have c: "\<forall>e. ParseCoinNormalized K (args ! 1) = Inl e \<longrightarrow>
      (\<exists>err. NewAuctionBidTx K cmd args = Aborted err)"
    by (auto simp: NewAuctionBidTx_def RunE_def split: sum.splits)
  have d: "\<forall>cmd' cc e. length args = 3 \<and> Flags_Set K cmd FlagFrom (args ! 0) = Inr cmd' \<and>
      GetClientTxContext K cmd' = Inr cc \<and> ParseCoinNormalized K (args ! 1) = Inl e \<longrightarrow>
      NewAuctionBidTx K cmd args = Aborted (Returned e)"
    by (auto simp: NewAuctionBidTx_def RunE_def split: sum.splits)
  from a b c d show ?thesis by blast
qed

theorem auction_bid_builds_msg_witness:
  "NewAuctionBidTx example_collaborators ([], 7) [''cosmos1abc'', ''10000uatom'', ''aGVsbG8=,AQID''] =
     Submitted
       \<lparr>bidder = ''cosmos1abc'', bid = \<lparr>denom = ''uatom'', amount = 10000\<rparr>,
        transactions = [[104, 101, 108, 108, 111], [1, 2, 3]]\<rparr>
       None \<and>
   NewAuctionBidTx example_collaborators ([], 7) [''cosmos1abc'', ''10000uatom''] =
     Aborted (ExactArgs 3 2) \<and>
   NewAuctionBidTx example_collaborators ([], 7) [''cosmos1abc'', ''uatom'', ''AQID''] =
     Aborted (Returned ''invalid decimal coin expression'')"
proof -
  have s: "strings_Split ''aGVsbG8=,AQID'' (CHR '','') = [''aGVsbG8='', ''AQID'']"
    by (simp add: strings_Split_def)
  have m: "map DecodeString (strings_Split ''aGVsbG8=,AQID'' (CHR '','')) =
      map Inr [[104, 101, 108, 108, 111], [1, 2, 3]]"
    by (simp only: s) (simp add: DecodeString_hello DecodeString_AQID)
  have 1: "NewAuctionBidTx example_collaborators ([], 7)
      [''cosmos1abc'', ''10000uatom'', ''aGVsbG8=,AQID''] =
     Submitted
       \<lparr>bidder = ''cosmos1abc'', bid = \<lparr>denom = ''uatom'', amount = 10000\<rparr>,
        transactions = [[104, 101, 108, 108, 111], [1, 2, 3]]\<rparr>
       None"
    using auction_bid_builds_msg [of "[''cosmos1abc'', ''10000uatom'', ''aGVsbG8=,AQID'']"
        example_collaborators "([], 7)"
        "\<lparr>bidder = ''cosmos1abc'', bid = \<lparr>denom = ''uatom'', amount = 10000\<rparr>,
          transactions = [[104, 101, 108, 108, 111], [1, 2, 3]]\<rparr>" None] m
    by (simp add: example_Flags_Set example_timeoutHeight example_GetClientTxContext
        example_ParseCoinNormalized NewMsgAuctionBid_def)
      (simp add: example_collaborators_def)
  have 2: "NewAuctionBidTx example_collaborators ([], 7) [''cosmos1abc'', ''10000uatom''] =
     Aborted (ExactArgs 3 2)"
    using auction_bid_builds_msg [of "[''cosmos1abc'', ''10000uatom'']"
        example_collaborators "([], 7)"]
    by simp
  have 3: "NewAuctionBidTx example_collaborators ([], 7) [''cosmos1abc'', ''uatom'', ''AQID''] =
     Aborted (Returned ''invalid decimal coin expression'')"
    using auction_bid_builds_msg [of "[''cosmos1abc'', ''uatom'', ''AQID'']"
        example_collaborators "([], 7)"]
    by (simp add: example_Flags_Set example_GetClientTxContext)
      (simp add: example_collaborators_def)
  from 1 2 3 show ?thesis by simp
qed

subsection \<open>The empty bundle argument\<close>




section \<open>Properties of the persisted types\<close>

text \<open>
  Claim C7. A \<^verbatim>\<open>Params\<close> value is its seven fields and nothing else: the maximal
  bundle size (32 bits, unsigned), the escrow account address (a string), the reserve fee,
  the minimal buy-in fee and the minimal bid increment (coins), the front-running
  protection (a boolean) and the proposer fee (a decimal). A genesis state is its
  \<^verbatim>\<open>Params\<close> and nothing else.
\<close>

theorem Params_and_GenesisState_fields:
  "(p :: Params) =
     \<lparr>max_bundle_size = (max_bundle_size p :: 32 word),
      escrow_account_address = (escrow_account_address p :: string),
      reserve_fee = (reserve_fee p :: Coin),
      min_buy_in_fee = (min_buy_in_fee p :: Coin),
      min_bid_increment = (min_bid_increment p :: Coin),
      front_running_protection = (front_running_protection p :: bool),
      proposer_fee = (proposer_fee p :: Dec)\<rparr> \<and>
   ((p :: Params) = q) =
     (max_bundle_size p = max_bundle_size q \<and>
      escrow_account_address p = escrow_account_address q \<and>
      reserve_fee p = reserve_fee q \<and> min_buy_in_fee p = min_buy_in_fee q \<and>
      min_bid_increment p = min_bid_increment q \<and>
      front_running_protection p = front_running_protection q \<and>
      proposer_fee p = proposer_fee q) \<and>
   (g :: GenesisState) = \<lparr>params = (params g :: Params)\<rparr> \<and>
   ((g :: GenesisState) = h) = (params g = params h)"
  by (cases p, cases q, cases g, cases h) auto

end
